theory Spec2Isabelle
  imports Main
begin

section \<open>Calls that may not return\<close>

text \<open>
  The helpers of package \<^verbatim>\<open>testutil\<close> take caller-supplied closures
  (\<^verbatim>\<open>try\<close>, \<^verbatim>\<open>fail\<close>, \<^verbatim>\<open>printFunction\<close>). A Go call either returns
  a value or does not come back: it panics (the stack unwinds and deferred calls run), it ends
  the process (\<^verbatim>\<open>os.Exit\<close>, \<^verbatim>\<open>log.Fatal\<close>: no deferred call runs), or it blocks for
  ever. None of the helpers recovers from a panic, so whatever stops a callee stops the helper
  in the same way.
\<close>

datatype abort = Panic | Exit int | Block

datatype 'a outcome = Returned 'a | Aborted abort

section \<open>WaitFor\<close>

text \<open>
  \<^verbatim>\<open>
  func WaitFor(try func() bool, fail func(), timeout time.Duration) {
      start := time.Now()
      for {
          if try() {
              return
          } else if time.Now().Sub(start) > timeout {
              fail()
              return
          }
      }
  }
  \<close>

  A \<^verbatim>\<open>time.Time\<close> taken by \<^verbatim>\<open>time.Now()\<close> carries a monotonic clock reading in
  nanoseconds, and \<^verbatim>\<open>Sub\<close> of two such values is the difference of the readings as a
  \<^verbatim>\<open>time.Duration\<close> (an int64 count of nanoseconds), saturating at the largest and smallest
  duration instead of wrapping.
\<close>

type_synonym Time = int

type_synonym Duration = int

definition maxDuration :: Duration where
  "maxDuration = 2 ^ 63 - 1"

definition minDuration :: Duration where
  "minDuration = - (2 ^ 63)"

definition Sub :: "Time \<Rightarrow> Time \<Rightarrow> Duration" where
  "Sub t u = (if t - u > maxDuration then maxDuration
              else if t - u < minDuration then minDuration
              else t - u)"

text \<open>
  What a run of \<^verbatim>\<open>WaitFor\<close> does to its surroundings is a sequence of events: the reading
  taken by \<^verbatim>\<open>start := time.Now()\<close>, each call of \<^verbatim>\<open>try\<close> with how it ended, each
  evaluation of \<^verbatim>\<open>time.Now().Sub(start) > timeout\<close> with the three operands it used (the
  fresh reading, the start and the timeout), and each call of \<^verbatim>\<open>fail\<close>.
\<close>

datatype poll_event =
    EvStart Time
  | EvTry "bool outcome"
  | EvCheck Time Time Duration
  | EvFail "unit outcome"

text \<open>
  The world of a run: \<open>clock w k\<close> is the reading the \<open>k\<close>-th call of \<^verbatim>\<open>time.Now()\<close>
  gives, the counters say how many calls of the clock and of the two closures have been made,
  and \<open>trace\<close> holds the events so far, oldest first. A closure is given by how its \<open>k\<close>-th
  call ends, which covers closures with state of their own.
\<close>

record poll_world =
  clock :: "nat \<Rightarrow> Time"
  nows :: nat
  tries :: nat
  fails :: nat
  trace :: "poll_event list"

definition log_event :: "poll_event \<Rightarrow> poll_world \<Rightarrow> poll_world" where
  "log_event ev w = w\<lparr>trace := trace w @ [ev]\<rparr>"

definition time_Now :: "poll_world \<Rightarrow> Time \<times> poll_world" where
  "time_Now w = (clock w (nows w), w\<lparr>nows := Suc (nows w)\<rparr>)"

definition call_try :: "(nat \<Rightarrow> bool outcome) \<Rightarrow> poll_world \<Rightarrow> bool outcome \<times> poll_world" where
  "call_try try_fn w =
     (try_fn (tries w),
      w\<lparr>tries := Suc (tries w), trace := trace w @ [EvTry (try_fn (tries w))]\<rparr>)"

definition call_fail :: "(nat \<Rightarrow> unit outcome) \<Rightarrow> poll_world \<Rightarrow> unit outcome \<times> poll_world" where
  "call_fail fail_fn w =
     (fail_fn (fails w),
      w\<lparr>fails := Suc (fails w), trace := trace w @ [EvFail (fail_fn (fails w))]\<rparr>)"

text \<open>
  The \<^verbatim>\<open>for\<close> loop. It has no bound of its own, so it is a partial function: the value
  \<open>None\<close> stands for a loop that spins for ever. After \<^verbatim>\<open>fail()\<close> the function returns,
  unless \<^verbatim>\<open>fail\<close> itself did not return.
\<close>

partial_function (option) WaitFor_loop ::
  "(nat \<Rightarrow> bool outcome) \<Rightarrow> (nat \<Rightarrow> unit outcome) \<Rightarrow> Duration \<Rightarrow> Time \<Rightarrow> poll_world
     \<Rightarrow> (unit outcome \<times> poll_world) option" where
  "WaitFor_loop try_fn fail_fn timeout start w =
     (case call_try try_fn w of
        (Returned b, w1) \<Rightarrow>
          if b then Some (Returned (), w1)
          else (case time_Now w1 of (now, w2) \<Rightarrow>
             (let w3 = log_event (EvCheck now start timeout) w2 in
              if Sub now start > timeout then Some (call_fail fail_fn w3)
              else WaitFor_loop try_fn fail_fn timeout start w3))
      | (Aborted a, w1) \<Rightarrow> Some (Aborted a, w1))"

declare WaitFor_loop.simps [code]

definition WaitFor ::
  "(nat \<Rightarrow> bool outcome) \<Rightarrow> (nat \<Rightarrow> unit outcome) \<Rightarrow> Duration \<Rightarrow> poll_world
     \<Rightarrow> (unit outcome \<times> poll_world) option" where
  "WaitFor try_fn fail_fn timeout w =
     (case time_Now w of (start, w1) \<Rightarrow>
        WaitFor_loop try_fn fail_fn timeout start (log_event (EvStart start) w1))"

text \<open>
  A fresh world around a given clock, and an example clock that advances by 40 ns from one
  reading to the next.
\<close>

definition fresh :: "(nat \<Rightarrow> Time) \<Rightarrow> poll_world" where
  "fresh c = \<lparr>clock = c, nows = 0, tries = 0, fails = 0, trace = []\<rparr>"

definition ticking :: "nat \<Rightarrow> Time" where
  "ticking k = 40 * int k"

text \<open>A probe that is never ready and a \<^verbatim>\<open>fail\<close> that returns, as examples.\<close>

definition never_ready :: "nat \<Rightarrow> bool outcome" where
  "never_ready k = Returned False"

definition fail_returns :: "nat \<Rightarrow> unit outcome" where
  "fail_returns k = Returned ()"

text \<open>Recognisers for events, used to count them in a trace.\<close>

fun is_fail :: "poll_event \<Rightarrow> bool" where
  "is_fail (EvFail _) = True"
| "is_fail _ = False"

fun is_start :: "poll_event \<Rightarrow> bool" where
  "is_start (EvStart _) = True"
| "is_start _ = False"

section \<open>ShouldCrash\<close>

text \<open>
  \<^verbatim>\<open>
  func ShouldCrash(testName string, try func(), fail func()) {
      if os.Getenv("SHOULD_CRASH") == "1" {
          try()
          os.Exit(0)
      }
      cmd := exec.Command(os.Args[0], "-test.run="+testName)
      cmd.Env = append(os.Environ(), "SHOULD_CRASH=1")
      err := cmd.Run()
      if e, ok := err.(*exec.ExitError); ok && !e.Success() {
          return
      }
      fail()
  }
  \<close>

  A finished process either exited with a status or was killed by a signal;
  \<^verbatim>\<open>Success\<close> holds of an exit with status 0 only. An \<^verbatim>\<open>error\<close> is either an
  \<^verbatim>\<open>*exec.ExitError\<close>, which carries the state of the finished process, or an error of
  any other type, kept as its message; the nil error is \<open>None\<close>.
\<close>

datatype process_state = Exited int | Signaled int

definition Success :: "process_state \<Rightarrow> bool" where
  "Success ps = (case ps of Exited c \<Rightarrow> c = 0 | Signaled _ \<Rightarrow> False)"

datatype error = ExitError process_state | OtherError string

record Cmd =
  Path :: string
  Args :: "string list"
  Env :: "string list"

definition exec_Command :: "string \<Rightarrow> string list \<Rightarrow> Cmd" where
  "exec_Command name arg = \<lparr>Path = name, Args = name # arg, Env = []\<rparr>"

text \<open>
  What becomes of a command that is run is for the operating system to say: it cannot be
  started, it runs to its end, or it never ends. \<^verbatim>\<open>cmd.Run()\<close> reports this as package
  \<^verbatim>\<open>os/exec\<close> documents it: nil after an exit with status 0, an \<^verbatim>\<open>*exec.ExitError\<close>
  when the command started but did not complete successfully, an error of another type when it
  could not be started.
\<close>

datatype child_result = StartFailed string | Completed process_state | NeverEnds

datatype crash_event =
    CrTry "unit outcome"
  | CrExit int
  | CrRun Cmd "error option outcome"
  | CrFail "unit outcome"

text \<open>
  The world of one process: its environment as \<^verbatim>\<open>os.Environ()\<close> lists it (entries
  \<^verbatim>\<open>key=value\<close>), its arguments, the fate of any command it runs, the number of calls
  made to the two closures, and the events so far.
\<close>

record crash_world =
  os_Environ :: "string list"
  os_Args :: "string list"
  child :: "Cmd \<Rightarrow> child_result"
  try_calls :: nat
  fail_calls :: nat
  crash_trace :: "crash_event list"

fun lookup_env :: "string \<Rightarrow> string list \<Rightarrow> string" where
  "lookup_env key [] = []"
| "lookup_env key (kv # rest) =
     (if take (Suc (length key)) kv = key @ ''='' then drop (Suc (length key)) kv
      else lookup_env key rest)"

definition os_Getenv :: "string \<Rightarrow> crash_world \<Rightarrow> string" where
  "os_Getenv key w = lookup_env key (os_Environ w)"

definition os_Exit :: "int \<Rightarrow> crash_world \<Rightarrow> unit outcome \<times> crash_world" where
  "os_Exit code w = (Aborted (Exit code), w\<lparr>crash_trace := crash_trace w @ [CrExit code]\<rparr>)"

definition invoke_try :: "(nat \<Rightarrow> unit outcome) \<Rightarrow> crash_world \<Rightarrow> unit outcome \<times> crash_world" where
  "invoke_try try_fn w =
     (try_fn (try_calls w),
      w\<lparr>try_calls := Suc (try_calls w),
        crash_trace := crash_trace w @ [CrTry (try_fn (try_calls w))]\<rparr>)"

definition invoke_fail :: "(nat \<Rightarrow> unit outcome) \<Rightarrow> crash_world \<Rightarrow> unit outcome \<times> crash_world" where
  "invoke_fail fail_fn w =
     (fail_fn (fail_calls w),
      w\<lparr>fail_calls := Suc (fail_calls w),
        crash_trace := crash_trace w @ [CrFail (fail_fn (fail_calls w))]\<rparr>)"

definition run_result :: "child_result \<Rightarrow> error option outcome" where
  "run_result cr =
     (case cr of
        StartFailed msg \<Rightarrow> Returned (Some (OtherError msg))
      | Completed ps \<Rightarrow> if Success ps then Returned None else Returned (Some (ExitError ps))
      | NeverEnds \<Rightarrow> Aborted Block)"

definition cmd_Run :: "Cmd \<Rightarrow> crash_world \<Rightarrow> error option outcome \<times> crash_world" where
  "cmd_Run c w =
     (run_result (child w c),
      w\<lparr>crash_trace := crash_trace w @ [CrRun c (run_result (child w c))]\<rparr>)"

text \<open>The command the parent builds: the test binary itself, restricted to one test, marked.\<close>

definition reexec :: "string \<Rightarrow> string \<Rightarrow> crash_world \<Rightarrow> Cmd" where
  "reexec arg0 testName w =
     (exec_Command arg0 [''-test.run='' @ testName])
       \<lparr>Env := os_Environ w @ [''SHOULD_CRASH=1'']\<rparr>"

text \<open>
  \<^verbatim>\<open>os.Args[0]\<close> panics on an empty argument list. In the child role nothing follows
  \<^verbatim>\<open>os.Exit(0)\<close>, and nothing follows a \<^verbatim>\<open>try\<close> that does not return.
\<close>

definition ShouldCrash ::
  "string \<Rightarrow> (nat \<Rightarrow> unit outcome) \<Rightarrow> (nat \<Rightarrow> unit outcome) \<Rightarrow> crash_world
     \<Rightarrow> unit outcome \<times> crash_world" where
  "ShouldCrash testName try_fn fail_fn w =
     (if os_Getenv ''SHOULD_CRASH'' w = ''1'' then
        (case invoke_try try_fn w of
           (Returned _, w1) \<Rightarrow> os_Exit 0 w1
         | (Aborted a, w1) \<Rightarrow> (Aborted a, w1))
      else
        (case os_Args w of
           [] \<Rightarrow> (Aborted Panic, w)
         | arg0 # _ \<Rightarrow>
             (case cmd_Run (reexec arg0 testName w) w of
                (Aborted a, w1) \<Rightarrow> (Aborted a, w1)
              | (Returned err, w1) \<Rightarrow>
                  (case err of
                     Some (ExitError e) \<Rightarrow>
                       if \<not> Success e then (Returned (), w1) else invoke_fail fail_fn w1
                   | _ \<Rightarrow> invoke_fail fail_fn w1))))"

text \<open>
  Example processes: a parent whose re-executed test binary ends as \<open>cr\<close> says, and the
  child it starts, which finds the marker in its environment.
\<close>

definition parent_process :: "child_result \<Rightarrow> crash_world" where
  "parent_process cr =
     \<lparr>os_Environ = [''HOME=/root''], os_Args = [''/tmp/testutil.test'', ''-test.v''],
      child = (\<lambda>c. cr), try_calls = 0, fail_calls = 0, crash_trace = []\<rparr>"

definition child_process :: crash_world where
  "child_process =
     \<lparr>os_Environ = [''HOME=/root'', ''SHOULD_CRASH=1''],
      os_Args = [''/tmp/testutil.test'', ''-test.run=ExampleShouldCrash''],
      child = (\<lambda>c. NeverEnds), try_calls = 0, fail_calls = 0, crash_trace = []\<rparr>"

section \<open>CaptureStdout\<close>

text \<open>
  \<^verbatim>\<open>
  func CaptureStdout(printFunction func() error) (string, error) {
      r, w, err := os.Pipe()
      if err != nil {
          return "", err
      }

      originalStdOut := os.Stdout
      os.Stdout = w
      defer func() {
          os.Stdout = originalStdOut
      }()

      err = printFunction()
      if err != nil {
          return "", err
      }

      err = w.Close()
      if err != nil {
          return "", err
      }

      buf := bytes.Buffer{}
      _, err = io.Copy(&buf, r)
      if err != nil {
          return "", err
      }

      return buf.String(), nil
  }
  \<close>

  The files of the process are ordinary descriptors and the two ends of pipes. The world
  holds the package variable \<^verbatim>\<open>os.Stdout\<close>, the pipes made so far, the number of pipes
  the system will still grant (\<^verbatim>\<open>os.Pipe\<close> fails when none is left), and what has been
  written to ordinary descriptors.
\<close>

datatype os_File = Fd nat | PipeR nat | PipeW nat

record pipe =
  pending :: string
  rd_closed :: bool
  wr_closed :: bool

record io_world =
  os_Stdout :: os_File
  pipes :: "pipe list"
  pipe_quota :: nat
  written :: "(nat \<times> string) list"

definition os_Pipe :: "io_world \<Rightarrow> (error + os_File \<times> os_File) \<times> io_world" where
  "os_Pipe w =
     (if pipe_quota w = 0 then (Inl (OtherError ''pipe: too many open files''), w)
      else (Inr (PipeR (length (pipes w)), PipeW (length (pipes w))),
            w\<lparr>pipes := pipes w @ [\<lparr>pending = [], rd_closed = False, wr_closed = False\<rparr>],
              pipe_quota := pipe_quota w - 1\<rparr>))"

definition file_Write :: "os_File \<Rightarrow> string \<Rightarrow> io_world \<Rightarrow> error option \<times> io_world" where
  "file_Write f s w =
     (case f of
        Fd n \<Rightarrow> (None, w\<lparr>written := written w @ [(n, s)]\<rparr>)
      | PipeR n \<Rightarrow> (Some (OtherError ''bad file descriptor''), w)
      | PipeW n \<Rightarrow>
          if n < length (pipes w) \<and> \<not> wr_closed (pipes w ! n)
          then (None, w\<lparr>pipes := (pipes w)
                  [n := (pipes w ! n)\<lparr>pending := pending (pipes w ! n) @ s\<rparr>]\<rparr>)
          else (Some (OtherError ''file already closed''), w))"

definition file_Close :: "os_File \<Rightarrow> io_world \<Rightarrow> error option \<times> io_world" where
  "file_Close f w =
     (case f of
        Fd n \<Rightarrow> (None, w)
      | PipeR n \<Rightarrow>
          if n < length (pipes w) \<and> \<not> rd_closed (pipes w ! n)
          then (None, w\<lparr>pipes := (pipes w)[n := (pipes w ! n)\<lparr>rd_closed := True\<rparr>]\<rparr>)
          else (Some (OtherError ''file already closed''), w)
      | PipeW n \<Rightarrow>
          if n < length (pipes w) \<and> \<not> wr_closed (pipes w ! n)
          then (None, w\<lparr>pipes := (pipes w)[n := (pipes w ! n)\<lparr>wr_closed := True\<rparr>]\<rparr>)
          else (Some (OtherError ''file already closed''), w))"

text \<open>
  \<^verbatim>\<open>io.Copy(&buf, r)\<close> reads \<open>r\<close> to its end and gives what it read together with the
  first error met. A pipe is at its end once it is drained and its write end closed; while
  the write end is open the copy waits for more.
\<close>

definition io_Copy :: "os_File \<Rightarrow> io_world \<Rightarrow> (string \<times> error option) outcome \<times> io_world" where
  "io_Copy r w =
     (case r of
        PipeR n \<Rightarrow>
          if \<not> n < length (pipes w) \<or> rd_closed (pipes w ! n)
          then (Returned ([], Some (OtherError ''file already closed'')), w)
          else if \<not> wr_closed (pipes w ! n)
          then (Aborted Block, w\<lparr>pipes := (pipes w)[n := (pipes w ! n)\<lparr>pending := []\<rparr>]\<rparr>)
          else (Returned (pending (pipes w ! n), None),
                w\<lparr>pipes := (pipes w)[n := (pipes w ! n)\<lparr>pending := []\<rparr>]\<rparr>)
      | _ \<Rightarrow> (Returned ([], Some (OtherError ''bad file descriptor'')), w))"

text \<open>
  A deferred call runs when the function returns and when a panic unwinds through it, not
  when the process ends or the function blocks for ever.
\<close>

fun run_deferred :: "(io_world \<Rightarrow> io_world) \<Rightarrow> 'a outcome \<times> io_world \<Rightarrow> 'a outcome \<times> io_world" where
  "run_deferred d (Returned x, w) = (Returned x, d w)"
| "run_deferred d (Aborted Panic, w) = (Aborted Panic, d w)"
| "run_deferred d (Aborted a, w) = (Aborted a, w)"

definition CaptureStdout ::
  "(io_world \<Rightarrow> error option outcome \<times> io_world) \<Rightarrow> io_world
     \<Rightarrow> (string \<times> error option) outcome \<times> io_world" where
  "CaptureStdout printFunction w0 =
     (case os_Pipe w0 of
        (Inl err, w1) \<Rightarrow> (Returned ([], Some err), w1)
      | (Inr (r, wr), w1) \<Rightarrow>
          (let originalStdOut = os_Stdout w1;
               w2 = w1\<lparr>os_Stdout := wr\<rparr>
           in run_deferred (\<lambda>w. w\<lparr>os_Stdout := originalStdOut\<rparr>)
                (case printFunction w2 of
                   (Aborted a, w3) \<Rightarrow> (Aborted a, w3)
                 | (Returned (Some err), w3) \<Rightarrow> (Returned ([], Some err), w3)
                 | (Returned None, w3) \<Rightarrow>
                     (case file_Close wr w3 of
                        (Some err, w4) \<Rightarrow> (Returned ([], Some err), w4)
                      | (None, w4) \<Rightarrow>
                          (case io_Copy r w4 of
                             (Aborted a, w5) \<Rightarrow> (Aborted a, w5)
                           | (Returned (buf, Some err), w5) \<Rightarrow> (Returned ([], Some err), w5)
                           | (Returned (buf, None), w5) \<Rightarrow> (Returned (buf, None), w5))))))"

text \<open>
  Example print functions: one prints a line to whatever \<^verbatim>\<open>os.Stdout\<close> is and returns
  nil, the other prints and then returns an error. The example world is a process whose
  standard output is descriptor 1.
\<close>

definition fmt_Println :: "string \<Rightarrow> io_world \<Rightarrow> error option \<times> io_world" where
  "fmt_Println s w = file_Write (os_Stdout w) (s @ [CHR 0x0A]) w"

definition print_ok :: "io_world \<Rightarrow> error option outcome \<times> io_world" where
  "print_ok w = (Returned None, snd (fmt_Println ''This goes to stdout'' w))"

definition print_err :: "io_world \<Rightarrow> error option outcome \<times> io_world" where
  "print_err w = (Returned (Some (OtherError ''boom'')), snd (fmt_Println ''partial'' w))"

definition terminal :: "nat \<Rightarrow> io_world" where
  "terminal q = \<lparr>os_Stdout = Fd 1, pipes = [], pipe_quota = q, written = []\<rparr>"

section \<open>Properties of WaitFor\<close>

subsection \<open>One turn of the loop\<close>

lemma WaitFor_loop_true:
  assumes "try_fn (tries w) = Returned True"
  shows "WaitFor_loop try_fn fail_fn timeout start w =
           Some (Returned (), w\<lparr>tries := Suc (tries w),
                                 trace := trace w @ [EvTry (Returned True)]\<rparr>)"
  using assms by (subst WaitFor_loop.simps) (simp add: call_try_def)

lemma WaitFor_loop_abort:
  assumes "try_fn (tries w) = Aborted a"
  shows "WaitFor_loop try_fn fail_fn timeout start w =
           Some (Aborted a, w\<lparr>tries := Suc (tries w),
                                trace := trace w @ [EvTry (Aborted a)]\<rparr>)"
  using assms by (subst WaitFor_loop.simps) (simp add: call_try_def)

lemma WaitFor_loop_spin:
  assumes "try_fn (tries w) = Returned False"
      and "\<not> Sub (clock w (nows w)) start > timeout"
  shows "WaitFor_loop try_fn fail_fn timeout start w =
           WaitFor_loop try_fn fail_fn timeout start
             (w\<lparr>tries := Suc (tries w), nows := Suc (nows w),
                trace := trace w @ [EvTry (Returned False),
                                    EvCheck (clock w (nows w)) start timeout]\<rparr>)"
  using assms
  by (subst WaitFor_loop.simps) (simp add: call_try_def time_Now_def log_event_def)

lemma WaitFor_loop_expired:
  assumes "try_fn (tries w) = Returned False"
      and "Sub (clock w (nows w)) start > timeout"
  shows "WaitFor_loop try_fn fail_fn timeout start w =
           Some (fail_fn (fails w),
                 w\<lparr>nows := Suc (nows w), tries := Suc (tries w), fails := Suc (fails w),
                   trace := trace w @ [EvTry (Returned False),
                                       EvCheck (clock w (nows w)) start timeout,
                                       EvFail (fail_fn (fails w))]\<rparr>)"
  using assms
  by (subst WaitFor_loop.simps)
     (simp add: call_try_def time_Now_def log_event_def call_fail_def)

subsection \<open>Many turns\<close>

text \<open>
  A probe that is false \<open>n\<close> times and then true, with no reading past the timeout in
  between: the loop returns after \<open>n + 1\<close> probe calls and never calls \<^verbatim>\<open>fail\<close>.
\<close>

lemma WaitFor_loop_eventually_true:
  assumes "\<forall>k<n. try_fn (tries w + k) = Returned False"
      and "try_fn (tries w + n) = Returned True"
      and "\<forall>k<n. \<not> Sub (clock w (nows w + k)) start > timeout"
  shows "\<exists>w' evs. WaitFor_loop try_fn fail_fn timeout start w = Some (Returned (), w')
           \<and> clock w' = clock w \<and> nows w' = nows w + n \<and> tries w' = tries w + n + 1
           \<and> fails w' = fails w
           \<and> trace w' = trace w @ evs \<and> filter is_fail evs = []"
  using assms
proof (induction n arbitrary: w)
  case 0
  then show ?case by (simp add: WaitFor_loop_true)
next
  case (Suc n)
  let ?w = "w\<lparr>tries := Suc (tries w), nows := Suc (nows w),
                trace := trace w @ [EvTry (Returned False),
                                    EvCheck (clock w (nows w)) start timeout]\<rparr>"
  have f: "try_fn (tries w) = Returned False" using Suc.prems(1) by force
  have c: "\<not> Sub (clock w (nows w)) start > timeout" using Suc.prems(3) by force
  have step: "WaitFor_loop try_fn fail_fn timeout start w =
                WaitFor_loop try_fn fail_fn timeout start ?w"
    using f c by (rule WaitFor_loop_spin)
  have a1: "\<forall>k<n. try_fn (tries ?w + k) = Returned False"
    using Suc.prems(1) by (auto dest: spec [where x = "Suc k" for k])
  have a2: "try_fn (tries ?w + n) = Returned True" using Suc.prems(2) by simp
  have a3: "\<forall>k<n. \<not> Sub (clock ?w (nows ?w + k)) start > timeout"
    using Suc.prems(3) by (auto dest: spec [where x = "Suc k" for k])
  from Suc.IH [OF a1 a2 a3] obtain w' evs where
    "WaitFor_loop try_fn fail_fn timeout start ?w = Some (Returned (), w')"
    "clock w' = clock ?w" "nows w' = nows ?w + n" "tries w' = tries ?w + n + 1"
    "fails w' = fails ?w" "trace w' = trace ?w @ evs" "filter is_fail evs = []"
    by blast
  then show ?case
    using step by simp
qed

text \<open>
  A probe that stays false while the readings stay within the timeout \<open>n\<close> times and the
  next reading is past it: \<^verbatim>\<open>fail\<close> is called once, right after that reading.
\<close>

lemma WaitFor_loop_eventually_expired:
  assumes "\<forall>k\<le>n. try_fn (tries w + k) = Returned False"
      and "\<forall>k<n. \<not> Sub (clock w (nows w + k)) start > timeout"
      and "Sub (clock w (nows w + n)) start > timeout"
  shows "\<exists>w' evs. WaitFor_loop try_fn fail_fn timeout start w = Some (fail_fn (fails w), w')
           \<and> clock w' = clock w \<and> nows w' = nows w + n + 1 \<and> tries w' = tries w + n + 1
           \<and> fails w' = Suc (fails w)
           \<and> trace w' = trace w @ evs @ [EvCheck (clock w (nows w + n)) start timeout,
                                          EvFail (fail_fn (fails w))]
           \<and> filter is_fail evs = []
           \<and> (\<forall>t s d. EvCheck t s d \<in> set evs \<longrightarrow> \<not> Sub t s > d)"
  using assms
proof (induction n arbitrary: w)
  case 0
  then show ?case
    by (simp add: WaitFor_loop_expired)
next
  case (Suc n)
  let ?w = "w\<lparr>tries := Suc (tries w), nows := Suc (nows w),
                trace := trace w @ [EvTry (Returned False),
                                    EvCheck (clock w (nows w)) start timeout]\<rparr>"
  have f: "try_fn (tries w) = Returned False" using Suc.prems(1) by force
  have c: "\<not> Sub (clock w (nows w)) start > timeout" using Suc.prems(2) by force
  have step: "WaitFor_loop try_fn fail_fn timeout start w =
                WaitFor_loop try_fn fail_fn timeout start ?w"
    using f c by (rule WaitFor_loop_spin)
  have a1: "\<forall>k\<le>n. try_fn (tries ?w + k) = Returned False"
    using Suc.prems(1) by (auto dest: spec [where x = "Suc k" for k])
  have a2: "\<forall>k<n. \<not> Sub (clock ?w (nows ?w + k)) start > timeout"
    using Suc.prems(2) by (auto dest: spec [where x = "Suc k" for k])
  have a3: "Sub (clock ?w (nows ?w + n)) start > timeout" using Suc.prems(3) by simp
  from Suc.IH [OF a1 a2 a3] obtain w' evs where r:
    "WaitFor_loop try_fn fail_fn timeout start ?w = Some (fail_fn (fails ?w), w')"
    "clock w' = clock ?w" "nows w' = nows ?w + n + 1" "tries w' = tries ?w + n + 1"
    "fails w' = Suc (fails ?w)"
    "trace w' = trace ?w @ evs @ [EvCheck (clock ?w (nows ?w + n)) start timeout,
                                   EvFail (fail_fn (fails ?w))]"
    "filter is_fail evs = []"
    "\<forall>t s d. EvCheck t s d \<in> set evs \<longrightarrow> \<not> Sub t s > d"
    by blast
  let ?evs = "EvTry (Returned False) # EvCheck (clock w (nows w)) start timeout # evs"
  have "trace w' = trace w @ ?evs @ [EvCheck (clock w (nows w + Suc n)) start timeout,
                                     EvFail (fail_fn (fails w))]"
    using r(6) by simp
  moreover have "filter is_fail ?evs = []" using r(7) by simp
  moreover have "\<forall>t s d. EvCheck t s d \<in> set ?evs \<longrightarrow> \<not> Sub t s > d"
    using r(8) c by auto
  ultimately show ?case
    using step r(1-5) by (intro exI [of _ w'] exI [of _ ?evs]) simp
qed

subsection \<open>Every run that ends\<close>

text \<open>
  Whatever the probe and the clock do, a run of the loop that ends began with a call of the
  probe, took no second start time, and compared every reading with the start and the
  timeout it was given.
\<close>

lemma WaitFor_loop_trace:
  assumes "WaitFor_loop try_fn fail_fn timeout start w = Some y"
  shows "\<exists>evs. trace (snd y) = trace w @ EvTry (try_fn (tries w)) # evs
           \<and> filter is_start evs = []
           \<and> (\<forall>t s d. EvCheck t s d \<in> set evs \<longrightarrow> s = start \<and> d = timeout)"
proof (rule WaitFor_loop.raw_induct
         [where P = "\<lambda>try_fn fail_fn timeout start w y.
            \<exists>evs. trace (snd y) = trace w @ EvTry (try_fn (tries w)) # evs
              \<and> filter is_start evs = []
              \<and> (\<forall>t s d. EvCheck t s d \<in> set evs \<longrightarrow> s = start \<and> d = timeout)",
          OF _ assms], goal_cases)
  case (1 loop try_fn fail_fn timeout start w y)
  show ?case
  proof (cases "try_fn (tries w)")
    case (Aborted a)
    with 1(2) show ?thesis by (auto simp: call_try_def)
  next
    case (Returned b)
    show ?thesis
    proof (cases b)
      case True
      with Returned 1(2) show ?thesis by (auto simp: call_try_def)
    next
      case False
      let ?w = "w\<lparr>tries := Suc (tries w), nows := Suc (nows w),
                    trace := trace w @ [EvTry (Returned False),
                                        EvCheck (clock w (nows w)) start timeout]\<rparr>"
      show ?thesis
      proof (cases "Sub (clock w (nows w)) start > timeout")
        case True
        with False Returned 1(2) show ?thesis
          by (auto simp: call_try_def time_Now_def log_event_def call_fail_def)
      next
        case within: False
        with False Returned 1(2) have rec: "loop try_fn fail_fn timeout start ?w = Some y"
          by (simp add: call_try_def time_Now_def log_event_def)
        from 1(1) [OF rec] obtain evs where
          "trace (snd y) = trace ?w @ EvTry (try_fn (tries ?w)) # evs"
          "filter is_start evs = []"
          "\<forall>t s d. EvCheck t s d \<in> set evs \<longrightarrow> s = start \<and> d = timeout"
          by blast
        then show ?thesis
          using False Returned
          by (intro exI [of _ "EvCheck (clock w (nows w)) start timeout
                                 # EvTry (try_fn (tries ?w)) # evs"]) auto
      qed
    qed
  qed
qed

text \<open>
  No duration is longer than \<open>maxDuration\<close>, so a wait with that timeout (or a longer one)
  cannot expire: with a probe that stays false the loop does not end.
\<close>

lemma WaitFor_loop_unbounded:
  assumes "WaitFor_loop try_fn fail_fn timeout start w = Some y"
  shows "\<not> ((\<forall>k. try_fn k = Returned False) \<and> maxDuration \<le> timeout)"
proof (rule WaitFor_loop.raw_induct
         [where P = "\<lambda>try_fn fail_fn timeout start w y.
            \<not> ((\<forall>k. try_fn k = Returned False) \<and> maxDuration \<le> timeout)",
          OF _ assms], goal_cases)
  case (1 loop try_fn fail_fn timeout start w y)
  show ?case
  proof
    assume a: "(\<forall>k. try_fn k = Returned False) \<and> maxDuration \<le> timeout"
    then have "\<not> Sub (clock w (nows w)) start > timeout"
      by (auto simp: Sub_def maxDuration_def minDuration_def)
    with a 1(2) have "\<exists>w'. loop try_fn fail_fn timeout start w' = Some y"
      by (auto simp: call_try_def time_Now_def log_event_def)
    with 1(1) a show False by blast
  qed
qed

lemma WaitFor_unbounded:
  assumes "\<forall>k. try_fn k = Returned False" and "maxDuration \<le> timeout"
  shows "WaitFor try_fn fail_fn timeout w = None"
proof (cases "WaitFor try_fn fail_fn timeout w")
  case None
  then show ?thesis .
next
  case (Some y)
  then have "WaitFor_loop try_fn fail_fn timeout (clock w (nows w))
               (log_event (EvStart (clock w (nows w))) (w\<lparr>nows := Suc (nows w)\<rparr>)) = Some y"
    by (simp add: WaitFor_def time_Now_def)
  from WaitFor_loop_unbounded [OF this] assms show ?thesis by blast
qed

subsection \<open>The claims about WaitFor\<close>

text \<open>
  Claim C4. If the probe returns true on its first invocation, \<^verbatim>\<open>WaitFor\<close> returns at
  once: \<^verbatim>\<open>fail\<close> is not invoked, the probe is not called a second time, and the only other
  thing that happened is the reading of the start time.
\<close>

theorem WaitFor_first_probe_true:
  assumes "try_fn (tries w) = Returned True"
  shows "WaitFor try_fn fail_fn timeout w =
           Some (Returned (),
                 w\<lparr>nows := Suc (nows w), tries := Suc (tries w),
                   trace := trace w @ [EvStart (clock w (nows w)), EvTry (Returned True)]\<rparr>)"
  using assms
  by (simp add: WaitFor_def time_Now_def log_event_def WaitFor_loop_true)

theorem WaitFor_first_probe_true_witness:
  "WaitFor (\<lambda>k. Returned True) (\<lambda>k. Returned ()) 5000000000 (fresh ticking) =
     Some (Returned (),
           \<lparr>clock = ticking, nows = 1, tries = 1, fails = 0,
            trace = [EvStart 0, EvTry (Returned True)]\<rparr>)"
  using WaitFor_first_probe_true
          [where try_fn = "\<lambda>k. Returned True" and w = "fresh ticking"
             and fail_fn = "\<lambda>k. Returned ()" and timeout = 5000000000]
  by (simp add: fresh_def ticking_def)

text \<open>
  Claim C5. A probe that returns false on its first \<open>N\<close> invocations and true on the next
  one, with the elapsed time read after each of the \<open>N\<close> false results still within the
  timeout: \<^verbatim>\<open>WaitFor\<close> returns normally after \<open>N + 1\<close> probe calls, and no call of
  \<^verbatim>\<open>fail\<close> is among the events of the run.
\<close>

theorem WaitFor_true_after_N_false:
  assumes "\<forall>k<N. try_fn (tries w + k) = Returned False"
      and "try_fn (tries w + N) = Returned True"
      and "\<forall>k<N. \<not> Sub (clock w (Suc (nows w) + k)) (clock w (nows w)) > timeout"
  shows "\<exists>w' evs. WaitFor try_fn fail_fn timeout w = Some (Returned (), w')
           \<and> tries w' = tries w + N + 1 \<and> fails w' = fails w
           \<and> trace w' = trace w @ evs \<and> filter is_fail evs = []"
proof -
  let ?w = "log_event (EvStart (clock w (nows w))) (w\<lparr>nows := Suc (nows w)\<rparr>)"
  have "\<exists>w' evs. WaitFor_loop try_fn fail_fn timeout (clock w (nows w)) ?w = Some (Returned (), w')
           \<and> clock w' = clock ?w \<and> nows w' = nows ?w + N \<and> tries w' = tries ?w + N + 1
           \<and> fails w' = fails ?w
           \<and> trace w' = trace ?w @ evs \<and> filter is_fail evs = []"
    using assms by (intro WaitFor_loop_eventually_true) (simp_all add: log_event_def)
  then obtain w' evs where
    "WaitFor_loop try_fn fail_fn timeout (clock w (nows w)) ?w = Some (Returned (), w')"
    "tries w' = tries ?w + N + 1" "fails w' = fails ?w"
    "trace w' = trace ?w @ evs" "filter is_fail evs = []"
    by blast
  then show ?thesis
    by (intro exI [of _ w'] exI [of _ "EvStart (clock w (nows w)) # evs"])
       (simp add: WaitFor_def time_Now_def log_event_def)
qed

theorem WaitFor_true_after_N_false_witness:
  "\<exists>w' evs. WaitFor (\<lambda>k. Returned (2 \<le> k)) (\<lambda>k. Returned ()) 100 (fresh ticking)
                = Some (Returned (), w')
           \<and> tries w' = 3 \<and> fails w' = 0 \<and> trace w' = evs \<and> filter is_fail evs = []"
  using WaitFor_true_after_N_false
          [where N = 2 and try_fn = "\<lambda>k. Returned (2 \<le> k)" and w = "fresh ticking"
             and timeout = 100 and fail_fn = "\<lambda>k. Returned ()"]
  by (simp add: fresh_def ticking_def Sub_def maxDuration_def minDuration_def numeral_3_eq_3)

text \<open>
  A probe that stays false, in a run whose clock comes to give a reading that \<^verbatim>\<open>Sub\<close>
  puts above the timeout: \<^verbatim>\<open>fail\<close> is called once, right after the first such reading,
  and the loop ends as that call ended.
\<close>

lemma WaitFor_expires:
  assumes "\<forall>k. try_fn k = Returned False"
      and "\<exists>k. Sub (clock w (Suc (nows w) + k)) (clock w (nows w)) > timeout"
  shows "\<exists>w' evs t. WaitFor try_fn fail_fn timeout w = Some (fail_fn (fails w), w')
           \<and> fails w' = Suc (fails w)
           \<and> trace w' = trace w @ evs @ [EvCheck t (clock w (nows w)) timeout,
                                          EvFail (fail_fn (fails w))]
           \<and> Sub t (clock w (nows w)) > timeout
           \<and> filter is_fail evs = []
           \<and> (\<forall>t s d. EvCheck t s d \<in> set evs \<longrightarrow> \<not> Sub t s > d)"
proof -
  let ?start = "clock w (nows w)"
  let ?w = "log_event (EvStart ?start) (w\<lparr>nows := Suc (nows w)\<rparr>)"
  let ?late = "\<lambda>k. Sub (clock w (Suc (nows w) + k)) ?start > timeout"
  from assms(2) obtain n where n: "?late n" "\<forall>k<n. \<not> ?late k"
    using exists_least_iff [of ?late] by blast
  have "\<exists>w' evs. WaitFor_loop try_fn fail_fn timeout ?start ?w = Some (fail_fn (fails ?w), w')
           \<and> clock w' = clock ?w \<and> nows w' = nows ?w + n + 1 \<and> tries w' = tries ?w + n + 1
           \<and> fails w' = Suc (fails ?w)
           \<and> trace w' = trace ?w @ evs @ [EvCheck (clock ?w (nows ?w + n)) ?start timeout,
                                          EvFail (fail_fn (fails ?w))]
           \<and> filter is_fail evs = []
           \<and> (\<forall>t s d. EvCheck t s d \<in> set evs \<longrightarrow> \<not> Sub t s > d)"
    using assms(1) n by (intro WaitFor_loop_eventually_expired) (simp_all add: log_event_def)
  then obtain w' evs where r:
    "WaitFor_loop try_fn fail_fn timeout ?start ?w = Some (fail_fn (fails ?w), w')"
    "fails w' = Suc (fails ?w)"
    "trace w' = trace ?w @ evs @ [EvCheck (clock ?w (nows ?w + n)) ?start timeout,
                                   EvFail (fail_fn (fails ?w))]"
    "filter is_fail evs = []"
    "\<forall>t s d. EvCheck t s d \<in> set evs \<longrightarrow> \<not> Sub t s > d"
    by blast
  show ?thesis
    using r n(1)
    by (intro exI [of _ w'] exI [of _ "EvStart ?start # evs"]
          exI [of _ "clock w (Suc (nows w) + n)"])
       (auto simp: WaitFor_def time_Now_def log_event_def)
qed

text \<open>
  The difference of two readings that is above a timeout is still above it after
  \<^verbatim>\<open>Sub\<close> has saturated, as long as the timeout is below the largest duration.
\<close>

lemma Sub_exceeds:
  assumes "timeout < maxDuration" and "t - u > timeout"
  shows "Sub t u > timeout"
  using assms by (auto simp: Sub_def)

text \<open>
  Claim C2 speaks of every timeout. It fails at the largest one,
  \<^verbatim>\<open>time.Duration(math.MaxInt64)\<close>: no value of \<^verbatim>\<open>time.Now().Sub(start)\<close> is above it,
  so with a probe that is never ready \<^verbatim>\<open>fail\<close> is never called and \<^verbatim>\<open>WaitFor\<close> does
  not return, however far the clock advances.
\<close>

theorem WaitFor_maxDuration_never_fails:
  "WaitFor never_ready fail_returns maxDuration (fresh ticking) = None"
  by (rule WaitFor_unbounded) (simp_all add: never_ready_def)

text \<open>
  Claim C2, amended. With a probe that always returns false and a timeout below the largest
  duration, in a run whose clock advances past the timeout, \<^verbatim>\<open>WaitFor\<close> calls \<^verbatim>\<open>fail\<close>
  exactly once. The call comes right after a reading \<open>t\<close> whose elapsed time exceeds the
  timeout, and no earlier reading did. \<^verbatim>\<open>WaitFor\<close> then ends the way that call of
  \<^verbatim>\<open>fail\<close> ended: it returns normally when \<^verbatim>\<open>fail\<close> returns, with no value and no error
  of its own for the timeout.
\<close>

theorem WaitFor_times_out_once:
  assumes "\<forall>k. try_fn k = Returned False"
      and "timeout < maxDuration"
      and "\<exists>k. clock w (Suc (nows w) + k) - clock w (nows w) > timeout"
  shows "\<exists>w' evs t. WaitFor try_fn fail_fn timeout w = Some (fail_fn (fails w), w')
           \<and> fails w' = Suc (fails w)
           \<and> trace w' = trace w @ evs @ [EvCheck t (clock w (nows w)) timeout,
                                          EvFail (fail_fn (fails w))]
           \<and> Sub t (clock w (nows w)) > timeout
           \<and> filter is_fail evs = []
           \<and> (\<forall>t s d. EvCheck t s d \<in> set evs \<longrightarrow> \<not> Sub t s > d)"
proof -
  from assms(3) obtain k where "clock w (Suc (nows w) + k) - clock w (nows w) > timeout"
    by blast
  with assms(2) have "Sub (clock w (Suc (nows w) + k)) (clock w (nows w)) > timeout"
    by (rule Sub_exceeds)
  then have "\<exists>k. Sub (clock w (Suc (nows w) + k)) (clock w (nows w)) > timeout"
    by blast
  with assms(1) show ?thesis
    by (rule WaitFor_expires)
qed

theorem WaitFor_times_out_once_witness:
  "\<exists>w' evs t. WaitFor never_ready fail_returns 100 (fresh ticking) = Some (Returned (), w')
           \<and> fails w' = 1
           \<and> trace w' = evs @ [EvCheck t 0 100, EvFail (Returned ())]
           \<and> Sub t 0 > 100
           \<and> filter is_fail evs = []
           \<and> (\<forall>t s d. EvCheck t s d \<in> set evs \<longrightarrow> \<not> Sub t s > d)"
proof -
  have probe: "\<forall>k. never_ready k = Returned False"
    by (simp add: never_ready_def)
  have below: "(100 :: Duration) < maxDuration"
    by (simp add: maxDuration_def)
  have "ticking (Suc 0 + 2) - ticking 0 > 100"
    by (simp add: ticking_def)
  then have late: "\<exists>k. clock (fresh ticking) (Suc (nows (fresh ticking)) + k)
                      - clock (fresh ticking) (nows (fresh ticking)) > 100"
    unfolding fresh_def by (intro exI [of _ 2]) simp
  from WaitFor_times_out_once
         [where try_fn = never_ready and w = "fresh ticking" and timeout = 100
            and fail_fn = fail_returns, OF probe below late]
  show ?thesis by (simp add: fresh_def ticking_def fail_returns_def)
qed



text \<open>
  Claim C8. Whatever the timeout, zero and negative ones included: in a run that ends, the
  first call of the probe comes straight after the reading of the start time, before any
  evaluation of the timeout condition; a run that does not end had its first probe call
  return false; and when the first probe call returns true, \<^verbatim>\<open>WaitFor\<close> returns normally
  after that one call, without calling \<^verbatim>\<open>fail\<close>.
\<close>

theorem WaitFor_probe_before_deadline:
  "(\<forall>r w'. WaitFor try_fn fail_fn timeout w = Some (r, w') \<longrightarrow>
      (\<exists>evs. trace w' = trace w @ EvStart (clock w (nows w)) # EvTry (try_fn (tries w)) # evs))
   \<and> (WaitFor try_fn fail_fn timeout w = None \<longrightarrow> try_fn (tries w) = Returned False)
   \<and> (try_fn (tries w) = Returned True \<longrightarrow>
      (\<exists>w' evs. WaitFor try_fn fail_fn timeout w = Some (Returned (), w')
         \<and> tries w' = Suc (tries w) \<and> fails w' = fails w
         \<and> trace w' = trace w @ evs \<and> filter is_fail evs = []))"
proof (intro conjI allI impI)
  fix r w'
  assume "WaitFor try_fn fail_fn timeout w = Some (r, w')"
  then show "\<exists>evs. trace w' = trace w @ EvStart (clock w (nows w)) # EvTry (try_fn (tries w)) # evs"
    using WaitFor_loop_trace
          [of try_fn fail_fn timeout "clock w (nows w)"
              "log_event (EvStart (clock w (nows w))) (w\<lparr>nows := Suc (nows w)\<rparr>)" "(r, w')"]
    by (auto simp: WaitFor_def time_Now_def log_event_def)
next
  assume none: "WaitFor try_fn fail_fn timeout w = None"
  show "try_fn (tries w) = Returned False"
  proof (cases "try_fn (tries w)")
    case (Aborted a)
    with none show ?thesis
      by (simp add: WaitFor_def time_Now_def log_event_def WaitFor_loop_abort)
  next
    case (Returned b)
    with none show ?thesis
      by (cases b) (simp_all add: WaitFor_def time_Now_def log_event_def WaitFor_loop_true)
  qed
next
  assume "try_fn (tries w) = Returned True"
  then show "\<exists>w' evs. WaitFor try_fn fail_fn timeout w = Some (Returned (), w')
         \<and> tries w' = Suc (tries w) \<and> fails w' = fails w
         \<and> trace w' = trace w @ evs \<and> filter is_fail evs = []"
    by (simp add: WaitFor_def time_Now_def log_event_def WaitFor_loop_true)
qed

theorem WaitFor_probe_before_deadline_witness:
  "(\<exists>w' evs. WaitFor (\<lambda>k. Returned True) (\<lambda>k. Returned ()) 0 (fresh ticking)
                = Some (Returned (), w')
         \<and> tries w' = 1 \<and> fails w' = 0 \<and> trace w' = evs \<and> filter is_fail evs = [])
   \<and> (\<exists>w' evs. WaitFor (\<lambda>k. Returned True) (\<lambda>k. Returned ()) (- 1000000000) (fresh ticking)
                = Some (Returned (), w')
         \<and> tries w' = 1 \<and> fails w' = 0 \<and> trace w' = evs \<and> filter is_fail evs = [])"
  using WaitFor_probe_before_deadline
          [where try_fn = "\<lambda>k. Returned True" and fail_fn = "\<lambda>k. Returned ()"
             and timeout = 0 and w = "fresh ticking"]
        WaitFor_probe_before_deadline
          [where try_fn = "\<lambda>k. Returned True" and fail_fn = "\<lambda>k. Returned ()"
             and timeout = "- 1000000000" and w = "fresh ticking"]
  by (simp add: fresh_def)

section \<open>Properties of ShouldCrash\<close>

lemma run_result_simps:
  "run_result (StartFailed msg) = Returned (Some (OtherError msg))"
  "run_result (Completed (Exited c)) =
     (if c = 0 then Returned None else Returned (Some (ExitError (Exited c))))"
  "run_result (Completed (Signaled n)) = Returned (Some (ExitError (Signaled n)))"
  "run_result NeverEnds = Aborted Block"
  by (simp_all add: run_result_def Success_def)

text \<open>
  Claim C1. In the parent role (the marker is not \<^verbatim>\<open>"1"\<close>, which covers an absent
  marker), whatever \<^verbatim>\<open>try\<close> and \<^verbatim>\<open>fail\<close> are: when the re-executed test binary exits
  with a status other than 0, \<^verbatim>\<open>ShouldCrash\<close> returns and the only event is the run of the
  command, so \<^verbatim>\<open>fail\<close> is not called; when it exits with status 0, \<^verbatim>\<open>fail\<close> is called
  exactly once.
\<close>

theorem ShouldCrash_parent_exit_status:
  assumes "os_Getenv ''SHOULD_CRASH'' w \<noteq> ''1''"
      and "os_Args w = arg0 # rest"
      and "child w (reexec arg0 testName w) = Completed (Exited c)"
  shows "(c \<noteq> 0 \<longrightarrow>
            ShouldCrash testName try_fn fail_fn w =
              (Returned (),
               w\<lparr>crash_trace := crash_trace w @
                   [CrRun (reexec arg0 testName w) (Returned (Some (ExitError (Exited c))))]\<rparr>))
       \<and> (c = 0 \<longrightarrow>
            ShouldCrash testName try_fn fail_fn w =
              (fail_fn (fail_calls w),
               w\<lparr>fail_calls := Suc (fail_calls w),
                 crash_trace := crash_trace w @
                   [CrRun (reexec arg0 testName w) (Returned None),
                    CrFail (fail_fn (fail_calls w))]\<rparr>))"
  using assms
  by (simp add: ShouldCrash_def cmd_Run_def run_result_simps Success_def invoke_fail_def)

theorem ShouldCrash_parent_exit_status_witness:
  "ShouldCrash ''ExampleShouldCrash'' (\<lambda>k. Aborted (Exit 1)) (\<lambda>k. Returned ())
       (parent_process (Completed (Exited 1))) =
     (Returned (),
      (parent_process (Completed (Exited 1)))
        \<lparr>crash_trace :=
           [CrRun \<lparr>Path = ''/tmp/testutil.test'',
                   Args = [''/tmp/testutil.test'', ''-test.run=ExampleShouldCrash''],
                   Env = [''HOME=/root'', ''SHOULD_CRASH=1'']\<rparr>
                  (Returned (Some (ExitError (Exited 1))))]\<rparr>)
   \<and> ShouldCrash ''ExampleShouldCrash_second'' (\<lambda>k. Returned ()) (\<lambda>k. Returned ())
       (parent_process (Completed (Exited 0))) =
     (Returned (),
      (parent_process (Completed (Exited 0)))
        \<lparr>fail_calls := 1,
          crash_trace :=
           [CrRun \<lparr>Path = ''/tmp/testutil.test'',
                   Args = [''/tmp/testutil.test'', ''-test.run=ExampleShouldCrash_second''],
                   Env = [''HOME=/root'', ''SHOULD_CRASH=1'']\<rparr>
                  (Returned None),
            CrFail (Returned ())]\<rparr>)"
  using ShouldCrash_parent_exit_status
          [of "parent_process (Completed (Exited 1))" "''/tmp/testutil.test''" "[''-test.v'']"
              "''ExampleShouldCrash''" 1 "\<lambda>k. Aborted (Exit 1)" "\<lambda>k. Returned ()"]
        ShouldCrash_parent_exit_status
          [of "parent_process (Completed (Exited 0))" "''/tmp/testutil.test''" "[''-test.v'']"
              "''ExampleShouldCrash_second''" 0 "\<lambda>k. Returned ()" "\<lambda>k. Returned ()"]
  by (simp add: parent_process_def os_Getenv_def reexec_def exec_Command_def)

text \<open>
  Claim C3 says that a failure to start the child is surfaced as a fatal condition and that
  \<^verbatim>\<open>fail\<close> is not called for it. The code does otherwise: an error of \<^verbatim>\<open>cmd.Run()\<close>
  that is not an \<^verbatim>\<open>*exec.ExitError\<close> falls through to \<^verbatim>\<open>fail()\<close> like a child that
  exited with status 0. Here the test binary cannot be started, \<^verbatim>\<open>fail\<close> is called once and
  \<^verbatim>\<open>ShouldCrash\<close> returns normally.
\<close>

theorem ShouldCrash_launch_failure_calls_fail:
  "ShouldCrash ''ExampleShouldCrash'' (\<lambda>k. Aborted (Exit 1)) (\<lambda>k. Returned ())
       (parent_process (StartFailed ''fork/exec /tmp/testutil.test: no such file or directory'')) =
     (Returned (),
      (parent_process (StartFailed ''fork/exec /tmp/testutil.test: no such file or directory''))
        \<lparr>fail_calls := 1,
          crash_trace :=
           [CrRun \<lparr>Path = ''/tmp/testutil.test'',
                   Args = [''/tmp/testutil.test'', ''-test.run=ExampleShouldCrash''],
                   Env = [''HOME=/root'', ''SHOULD_CRASH=1'']\<rparr>
                  (Returned (Some (OtherError
                     ''fork/exec /tmp/testutil.test: no such file or directory''))),
            CrFail (Returned ())]\<rparr>)"
  by (simp add: ShouldCrash_def parent_process_def os_Getenv_def reexec_def exec_Command_def
        cmd_Run_def run_result_def invoke_fail_def)

text \<open>
  Claim C3, amended. In the parent role a failure to start the child is handled as a failed
  assertion: \<^verbatim>\<open>fail\<close> is called exactly once, after the run of the command, and
  \<^verbatim>\<open>ShouldCrash\<close> ends the way that call ended; it raises no fatal condition of its own.
\<close>

theorem ShouldCrash_launch_failure_is_assertion_failure:
  assumes "os_Getenv ''SHOULD_CRASH'' w \<noteq> ''1''"
      and "os_Args w = arg0 # rest"
      and "child w (reexec arg0 testName w) = StartFailed msg"
  shows "ShouldCrash testName try_fn fail_fn w =
           (fail_fn (fail_calls w),
            w\<lparr>fail_calls := Suc (fail_calls w),
              crash_trace := crash_trace w @
                [CrRun (reexec arg0 testName w) (Returned (Some (OtherError msg))),
                 CrFail (fail_fn (fail_calls w))]\<rparr>)"
  using assms
  by (simp add: ShouldCrash_def cmd_Run_def run_result_simps invoke_fail_def)

theorem ShouldCrash_launch_failure_is_assertion_failure_witness:
  "fst (ShouldCrash ''ExampleShouldCrash'' (\<lambda>k. Returned ()) (\<lambda>k. Aborted Panic)
       (parent_process (StartFailed ''exec format error''))) = Aborted Panic
   \<and> fail_calls (snd (ShouldCrash ''ExampleShouldCrash'' (\<lambda>k. Returned ()) (\<lambda>k. Aborted Panic)
       (parent_process (StartFailed ''exec format error'')))) = 1"
  using ShouldCrash_launch_failure_is_assertion_failure
          [of "parent_process (StartFailed ''exec format error'')" "''/tmp/testutil.test''"
              "[''-test.v'']" "''ExampleShouldCrash''" "''exec format error''"
              "\<lambda>k. Returned ()" "\<lambda>k. Aborted Panic"]
  by (simp add: parent_process_def os_Getenv_def reexec_def exec_Command_def)

text \<open>
  Claim C6. In the child role (the marker is \<^verbatim>\<open>"1"\<close>) \<^verbatim>\<open>ShouldCrash\<close> calls \<^verbatim>\<open>try\<close>
  once. When \<^verbatim>\<open>try\<close> returns, the process exits with status 0; when \<^verbatim>\<open>try\<close> does not
  return, the process ends as \<^verbatim>\<open>try\<close> ended it. In both cases no command is run and
  \<^verbatim>\<open>fail\<close> is not called: the parent branch is not entered.
\<close>

theorem ShouldCrash_child_role:
  assumes "os_Getenv ''SHOULD_CRASH'' w = ''1''"
  shows "(try_fn (try_calls w) = Returned () \<longrightarrow>
            ShouldCrash testName try_fn fail_fn w =
              (Aborted (Exit 0),
               w\<lparr>try_calls := Suc (try_calls w),
                 crash_trace := crash_trace w @ [CrTry (Returned ()), CrExit 0]\<rparr>))
       \<and> (\<forall>a. try_fn (try_calls w) = Aborted a \<longrightarrow>
            ShouldCrash testName try_fn fail_fn w =
              (Aborted a,
               w\<lparr>try_calls := Suc (try_calls w),
                 crash_trace := crash_trace w @ [CrTry (Aborted a)]\<rparr>))"
  using assms
  by (simp add: ShouldCrash_def invoke_try_def os_Exit_def)

theorem ShouldCrash_child_role_witness:
  "ShouldCrash ''ExampleShouldCrash'' (\<lambda>k. Returned ()) (\<lambda>k. Returned ()) child_process =
     (Aborted (Exit 0),
      child_process\<lparr>try_calls := 1, crash_trace := [CrTry (Returned ()), CrExit 0]\<rparr>)
   \<and> ShouldCrash ''ExampleShouldCrash'' (\<lambda>k. Aborted (Exit 1)) (\<lambda>k. Returned ()) child_process =
     (Aborted (Exit 1),
      child_process\<lparr>try_calls := 1, crash_trace := [CrTry (Aborted (Exit 1))]\<rparr>)"
  using ShouldCrash_child_role
          [of child_process "\<lambda>k. Returned ()" "''ExampleShouldCrash''" "\<lambda>k. Returned ()"]
        ShouldCrash_child_role
          [of child_process "\<lambda>k. Aborted (Exit 1)" "''ExampleShouldCrash''" "\<lambda>k. Returned ()"]
  by (simp add: child_process_def os_Getenv_def)

section \<open>Properties of CaptureStdout\<close>

lemma fst_run_deferred: "fst (run_deferred d (r, w)) = r"
  by (cases "(d, (r, w))" rule: run_deferred.cases) auto

text \<open>
  Claim C9. When the pipe could be made, so that \<^verbatim>\<open>printFunction\<close> is called, and
  \<^verbatim>\<open>printFunction\<close> returns a non-nil error, \<^verbatim>\<open>CaptureStdout\<close> returns the empty string
  and that same error. More generally, whenever \<^verbatim>\<open>CaptureStdout\<close> returns an error, the
  string it returns is empty.
\<close>

theorem CaptureStdout_print_error:
  "(os_Pipe w = (Inr (r, wr), w1)
      \<and> fst (printFunction (w1\<lparr>os_Stdout := wr\<rparr>)) = Returned (Some err)
      \<longrightarrow> fst (CaptureStdout printFunction w) = Returned ([], Some err))
   \<and> (fst (CaptureStdout printFunction w) = Returned (s, Some e) \<longrightarrow> s = [])"
  by (auto simp: CaptureStdout_def Let_def fst_run_deferred
           split: prod.splits sum.splits outcome.splits option.splits abort.splits)

theorem CaptureStdout_print_error_witness:
  "fst (CaptureStdout print_err (terminal 1)) = Returned ([], Some (OtherError ''boom''))"
  using CaptureStdout_print_error
          [where w = "terminal 1" and printFunction = print_err
             and err = "OtherError ''boom''" and r = "PipeR 0" and wr = "PipeW 0"
             and ?w1.0 = "\<lparr>os_Stdout = Fd 1,
                   pipes = [\<lparr>pending = [], rd_closed = False, wr_closed = False\<rparr>],
                   pipe_quota = 0, written = []\<rparr>"]
  by (simp add: terminal_def os_Pipe_def print_err_def)

text \<open>
  Claim C10. Whenever \<^verbatim>\<open>CaptureStdout\<close> returns, with a result or with an error from the
  pipe, the print function, the close or the copy, \<^verbatim>\<open>os.Stdout\<close> holds the value it held
  at entry.
\<close>

theorem CaptureStdout_restores_Stdout:
  assumes "fst (CaptureStdout printFunction w) = Returned x"
  shows "os_Stdout (snd (CaptureStdout printFunction w)) = os_Stdout w"
  using assms
  by (auto simp: CaptureStdout_def Let_def os_Pipe_def fst_run_deferred
           split: prod.splits sum.splits outcome.splits option.splits abort.splits if_splits)

theorem CaptureStdout_restores_Stdout_witness:
  "os_Stdout (snd (CaptureStdout print_ok (terminal 1))) = Fd 1
   \<and> os_Stdout (snd (CaptureStdout print_err (terminal 1))) = Fd 1
   \<and> os_Stdout (snd (CaptureStdout print_ok (terminal 0))) = Fd 1"
proof -
  have a: "fst (CaptureStdout print_ok (terminal 1)) =
             Returned (''This goes to stdout'' @ [CHR 0x0A], None)"
    by (simp add: CaptureStdout_def terminal_def os_Pipe_def print_ok_def fmt_Println_def
          file_Write_def file_Close_def io_Copy_def)
  have b: "fst (CaptureStdout print_err (terminal 1)) = Returned ([], Some (OtherError ''boom''))"
    by (simp add: CaptureStdout_def terminal_def os_Pipe_def print_err_def fmt_Println_def
          file_Write_def)
  have c: "fst (CaptureStdout print_ok (terminal 0)) =
             Returned ([], Some (OtherError ''pipe: too many open files''))"
    by (simp add: CaptureStdout_def terminal_def os_Pipe_def)
  from CaptureStdout_restores_Stdout [OF a] CaptureStdout_restores_Stdout [OF b]
       CaptureStdout_restores_Stdout [OF c]
  show ?thesis
    by (simp add: terminal_def)
qed

end
